theory Spec2Isabelle
  imports Main "HOL-Library.Word"
begin

unbundle bit_operations_syntax

section \<open>Bytes and fixed-size arrays\<close>

type_synonym byte = "8 word"

text \<open>Go's \<^verbatim>\<open>[32]byte\<close> and \<^verbatim>\<open>[16]byte\<close>: byte sequences whose length is part of the type.\<close>

typedef array32 = "{bs :: byte list. length bs = 32}"
  morphisms bytes32 Array32
  by (rule exI [of _ "replicate 32 0"]) simp

typedef array16 = "{bs :: byte list. length bs = 16}"
  morphisms bytes16 Array16
  by (rule exI [of _ "replicate 16 0"]) simp

text \<open>The zero value of \<^verbatim>\<open>[32]byte\<close> (also the all-zero revocation).\<close>

definition zero32 :: array32 where
  "zero32 = Array32 (replicate 32 0)"

definition zero16 :: array16 where
  "zero16 = Array16 (replicate 16 0)"

section \<open>lnwire: the RevokeAndAck message\<close>

text \<open>
  \<^verbatim>\<open>wire.OutPoint\<close> (btcd): a 32-byte transaction hash and a 32-bit output index.
\<close>

record OutPoint =
  Hash :: array32
  Index :: "32 word"

text \<open>
  \<^verbatim>\<open>type RevokeAndAck struct\<close>. The public key is a pointer to a key of the btcec
  library, so it may be nil (\<open>None\<close>); the key type \<open>'pk\<close> and the library's
  \<^verbatim>\<open>ParsePubKey\<close> and \<^verbatim>\<open>SerializeCompressed\<close> are parameters of the model.
\<close>

record 'pk RevokeAndAck =
  ChannelPoint :: OutPoint
  Revocation :: array32
  NextRevocationKey :: "'pk option"
  NextRevocationHash :: array32

text \<open>\<^verbatim>\<open>NewRevokeAndAck\<close> returns the zero value of the struct.\<close>

definition NewRevokeAndAck :: "'pk RevokeAndAck" where
  "NewRevokeAndAck =
     \<lparr>ChannelPoint = \<lparr>Hash = zero32, Index = 0\<rparr>, Revocation = zero32,
      NextRevocationKey = None, NextRevocationHash = zero32\<rparr>"

datatype error = EOF | ErrUnexpectedEOF | ErrInvalidPubKey

datatype panic = NilPointerDereference | IndexOutOfRange

text \<open>
  An \<^verbatim>\<open>io.Reader\<close> over a byte stream is the list of bytes not yet consumed.
  \<^verbatim>\<open>io.ReadFull(r, buf)\<close> fills the buffer, given here by its contents \<open>buf\<close> before
  the call. When fewer bytes are left than the buffer holds, the bytes left are copied
  to the front of the buffer, the reader is used up, and the error is \<^verbatim>\<open>io.EOF\<close> when
  no byte was left and \<^verbatim>\<open>io.ErrUnexpectedEOF\<close> otherwise. The result holds the buffer
  and the reader after the call.
\<close>

type_synonym reader = "byte list"

definition ReadFull ::
  "reader \<Rightarrow> byte list \<Rightarrow> (error \<times> byte list \<times> reader) + (byte list \<times> reader)" where
  "ReadFull r buf =
     (if length buf \<le> length r then Inr (take (length buf) r, drop (length buf) r)
      else Inl (if r = [] then EOF else ErrUnexpectedEOF, r @ drop (length r) buf, []))"

text \<open>Four bytes, most significant first, and back.\<close>

definition PutUint32 :: "32 word \<Rightarrow> byte list" where
  "PutUint32 v = [ucast (drop_bit 24 v), ucast (drop_bit 16 v), ucast (drop_bit 8 v), ucast v]"

definition Uint32 :: "byte list \<Rightarrow> 32 word" where
  "Uint32 b =
     push_bit 24 (ucast (b ! 0)) OR push_bit 16 (ucast (b ! 1)) OR
     push_bit 8 (ucast (b ! 2)) OR ucast (b ! 3)"

text \<open>
  Modelled from the spec: \<^verbatim>\<open>readElement\<close> of package lnwire for a \<^verbatim>\<open>*wire.OutPoint\<close>,
  which is not among the source files. The spec gives the revocation-and-acknowledge
  payload as 36+32+33+32 = 133 bytes, the 36 being the channel reference with its
  encoding overhead: the 32-byte hash followed by the 4-byte output index. Both are
  read into buffers of the function's own, so a failed read leaves the destination as
  it was; the result of a failure is the error and the reader.
\<close>

definition readElement_OutPoint :: "reader \<Rightarrow> (error \<times> reader) + (OutPoint \<times> reader)" where
  "readElement_OutPoint r =
     (case ReadFull r (replicate 32 0) of
        Inl (err, h, r1) \<Rightarrow> Inl (err, r1)
      | Inr (h, r1) \<Rightarrow>
          (case ReadFull r1 (replicate 4 0) of
             Inl (err, idxBytes, r2) \<Rightarrow> Inl (err, r2)
           | Inr (idxBytes, r2) \<Rightarrow> Inr (\<lparr>Hash = Array32 h, Index = Uint32 idxBytes\<rparr>, r2)))"

text \<open>
  Modelled from the spec: \<^verbatim>\<open>readElement\<close> of package lnwire for a byte slice (here
  the 32-byte disclosed secret and the 32-byte next revocation hash, slices of the
  receiver's arrays), not among the source files: the slice, with the contents \<open>e\<close>
  before the call, is filled from the reader. A short read leaves the bytes it got in
  front of the slice.
\<close>

definition readElement_bytes ::
  "reader \<Rightarrow> byte list \<Rightarrow> (error \<times> byte list \<times> reader) + (byte list \<times> reader)" where
  "readElement_bytes r e = ReadFull r e"

text \<open>
  Modelled from the spec: \<^verbatim>\<open>readElement\<close> of package lnwire for a \<^verbatim>\<open>**btcec.PublicKey\<close>,
  not among the source files: the 33-byte next revocation public key is read into a
  buffer of the function's own and parsed by the key library (\<open>ParsePubKey\<close>, \<open>None\<close>
  when it rejects the bytes); a failure leaves the destination as it was.
\<close>

definition readElement_PublicKey ::
  "(byte list \<Rightarrow> 'pk option) \<Rightarrow> reader \<Rightarrow> (error \<times> reader) + ('pk \<times> reader)" where
  "readElement_PublicKey ParsePubKey r =
     (case ReadFull r (replicate 33 0) of
        Inl (err, b, r1) \<Rightarrow> Inl (err, r1)
      | Inr (b, r1) \<Rightarrow>
          (case ParsePubKey b of
             None \<Rightarrow> Inl (ErrInvalidPubKey, r1)
           | Some pubKey \<Rightarrow> Inr (pubKey, r1)))"

text \<open>
  \<^verbatim>\<open>func (c *RevokeAndAck) Decode(r io.Reader, pver uint32) error\<close>: the elements are
  read in the order ChannelPoint, Revocation, NextRevocationKey, NextRevocationHash,
  each into its field of the receiver, stopping at the first error. A successful
  decode (\<open>Inr\<close>) gives the receiver with its four fields set and the reader behind the
  payload. A failed one (\<open>Inl\<close>) gives the error, the receiver as the reads before the
  failure have left it, and the reader.
\<close>

definition Decode ::
  "(byte list \<Rightarrow> 'pk option) \<Rightarrow> 'pk RevokeAndAck \<Rightarrow> reader \<Rightarrow> 32 word \<Rightarrow>
     (error \<times> 'pk RevokeAndAck \<times> reader) + ('pk RevokeAndAck \<times> reader)" where
  "Decode ParsePubKey c r pver =
     (case readElement_OutPoint r of
        Inl (err, r1) \<Rightarrow> Inl (err, c, r1)
      | Inr (cp, r1) \<Rightarrow>
     (case readElement_bytes r1 (bytes32 (Revocation c)) of
        Inl (err, secret, r2) \<Rightarrow>
          Inl (err, c\<lparr>ChannelPoint := cp, Revocation := Array32 secret\<rparr>, r2)
      | Inr (secret, r2) \<Rightarrow>
     (case readElement_PublicKey ParsePubKey r2 of
        Inl (err, r3) \<Rightarrow>
          Inl (err, c\<lparr>ChannelPoint := cp, Revocation := Array32 secret\<rparr>, r3)
      | Inr (key, r3) \<Rightarrow>
     (case readElement_bytes r3 (bytes32 (NextRevocationHash c)) of
        Inl (err, h, r4) \<Rightarrow>
          Inl (err, c\<lparr>ChannelPoint := cp, Revocation := Array32 secret,
                       NextRevocationKey := Some key, NextRevocationHash := Array32 h\<rparr>, r4)
      | Inr (h, r4) \<Rightarrow>
          Inr (c\<lparr>ChannelPoint := cp, Revocation := Array32 secret,
                 NextRevocationKey := Some key, NextRevocationHash := Array32 h\<rparr>, r4)))))"

text \<open>
  The call \<^verbatim>\<open>err := c.Decode(r, pver)\<close> as a step of the program. The program state
  holds the receiver, the reader and, under \<open>channels\<close>, everything else the program
  holds (its channels and their state). The body of Decode passes the reader and
  pointers into the receiver's four fields to \<^verbatim>\<open>readElements\<close>, and nothing else.
\<close>

record ('pk, 's) program =
  receiver :: "'pk RevokeAndAck"
  input :: reader
  channels :: 's

definition Decode_call ::
  "(byte list \<Rightarrow> 'pk option) \<Rightarrow> 32 word \<Rightarrow> ('pk, 's) program \<Rightarrow>
     error option \<times> ('pk, 's) program" where
  "Decode_call ParsePubKey pver s =
     (case Decode ParsePubKey (receiver s) (input s) pver of
        Inl (err, c, r) \<Rightarrow> (Some err, s\<lparr>receiver := c, input := r\<rparr>)
      | Inr (c, r) \<Rightarrow> (None, s\<lparr>receiver := c, input := r\<rparr>))"

text \<open>
  Modelled from the spec: \<^verbatim>\<open>writeElement\<close> of package lnwire, not among the source
  files, for the three kinds of element that Encode passes. The writer is the list of
  bytes written so far, and a write to it does not fail. The channel reference takes
  36 bytes, a byte slice its own length, the public key the 33 bytes of its compressed
  serialization (cut or zero-padded to the 33-byte buffer). Serializing a nil key
  dereferences it: the call panics, with the writer as it is then.
\<close>

definition writeElement_OutPoint :: "OutPoint \<Rightarrow> byte list \<Rightarrow> (panic \<times> byte list) + byte list" where
  "writeElement_OutPoint e w = Inr (w @ bytes32 (Hash e) @ PutUint32 (Index e))"

definition writeElement_bytes :: "byte list \<Rightarrow> byte list \<Rightarrow> (panic \<times> byte list) + byte list" where
  "writeElement_bytes e w = Inr (w @ e)"

definition writeElement_PublicKey ::
  "('pk \<Rightarrow> byte list) \<Rightarrow> 'pk option \<Rightarrow> byte list \<Rightarrow> (panic \<times> byte list) + byte list" where
  "writeElement_PublicKey SerializeCompressed e w =
     (case e of
        None \<Rightarrow> Inl (NilPointerDereference, w)
      | Some k \<Rightarrow> Inr (w @ take 33 (SerializeCompressed k @ replicate 33 0)))"

text \<open>
  \<^verbatim>\<open>func (c *RevokeAndAck) Encode(w io.Writer, pver uint32) error\<close>: the four fields are
  written in the order of Decode. \<open>Inr\<close> is the writer after a call that returned nil,
  \<open>Inl\<close> a panic and the writer at that moment.
\<close>

definition Encode ::
  "('pk \<Rightarrow> byte list) \<Rightarrow> 'pk RevokeAndAck \<Rightarrow> byte list \<Rightarrow> 32 word \<Rightarrow>
     (panic \<times> byte list) + byte list" where
  "Encode SerializeCompressed c w pver =
     (case writeElement_OutPoint (ChannelPoint c) w of
        Inl failure \<Rightarrow> Inl failure
      | Inr w1 \<Rightarrow>
     (case writeElement_bytes (bytes32 (Revocation c)) w1 of
        Inl failure \<Rightarrow> Inl failure
      | Inr w2 \<Rightarrow>
     (case writeElement_PublicKey SerializeCompressed (NextRevocationKey c) w2 of
        Inl failure \<Rightarrow> Inl failure
      | Inr w3 \<Rightarrow> writeElement_bytes (bytes32 (NextRevocationHash c)) w3)))"

text \<open>\<^verbatim>\<open>MaxPayloadLength\<close>: the comment reads 36 + 32 + 33 + 32, the code returns 133.\<close>

definition MaxPayloadLength :: "'pk RevokeAndAck \<Rightarrow> 32 word \<Rightarrow> 32 word" where
  "MaxPayloadLength c pver = 133"

text \<open>\<^verbatim>\<open>Validate\<close>: the body is \<^verbatim>\<open>return nil\<close>.\<close>

definition Validate :: "'pk RevokeAndAck \<Rightarrow> error option" where
  "Validate c = None"

text \<open>
  A public key is well formed for the key library when its compressed serialization
  has 33 bytes and parses back to the same key.
\<close>

definition well_formed_key ::
  "(byte list \<Rightarrow> 'pk option) \<Rightarrow> ('pk \<Rightarrow> byte list) \<Rightarrow> 'pk \<Rightarrow> bool" where
  "well_formed_key ParsePubKey SerializeCompressed k \<longleftrightarrow>
     length (SerializeCompressed k) = 33 \<and> ParsePubKey (SerializeCompressed k) = Some k"

text \<open>
  Modelled from the spec: the channel state machine's handling of a received
  revocation, which is not among the source files. The states are those of the spec.
  A channel that is Breached refuses further updates. An all-zero revocation only
  seeds the counterparty's revocation window with the message's next key and next hash,
  and is never hash-checked. Any other revocation whose hash is not the value committed
  for the height drives the channel to Breached, in any state; one whose hash matches
  is accepted while the channel awaits the revocation (the height is superseded, the
  channel is Stable again, the next revocation point joins the window) and is a
  protocol violation, so Breached, in every other state. The hash function is a
  parameter.
\<close>

datatype chan_state = Stable | ProposalSent | ProposalReceived | AwaitingRevocation | Breached

record 'pk channel =
  chanState :: chan_state
  committedHash :: array32
  supersededHeights :: nat
  revocationWindow :: "('pk option \<times> array32) list"

definition revocation_received ::
  "(array32 \<Rightarrow> array32) \<Rightarrow> 'pk RevokeAndAck \<Rightarrow> 'pk channel \<Rightarrow> 'pk channel" where
  "revocation_received hash m ch =
     (if chanState ch = Breached then ch
      else if Revocation m = zero32 then
        ch\<lparr>revocationWindow :=
             revocationWindow ch @ [(NextRevocationKey m, NextRevocationHash m)]\<rparr>
      else if hash (Revocation m) \<noteq> committedHash ch then ch\<lparr>chanState := Breached\<rparr>
      else if chanState ch = AwaitingRevocation then
        ch\<lparr>chanState := Stable, supersededHeights := Suc (supersededHeights ch),
           revocationWindow :=
             revocationWindow ch @ [(NextRevocationKey m, NextRevocationHash m)]\<rparr>
      else ch\<lparr>chanState := Breached\<rparr>)"

text \<open>
  A stand-in for the key library, used only to run the model on concrete inputs. The
  key is its compressed serialization. \<open>sampleParsePubKey\<close> knows one key: the header
  byte 2 and the abscissa 0909...09, which is the abscissa of a point of the curve
  secp256k1. It is used on that key, and besides only on byte strings whose first byte
  is neither 2 nor 3, which the library rejects for their header.
\<close>

definition sampleKey :: "byte list" where
  "sampleKey = 2 # replicate 32 9"

definition sampleParsePubKey :: "byte list \<Rightarrow> byte list option" where
  "sampleParsePubKey b = (if b = sampleKey then Some b else None)"

definition sampleSerializeCompressed :: "byte list \<Rightarrow> byte list" where
  "sampleSerializeCompressed k = k"

text \<open>
  A sample channel, awaiting a revocation whose hash it holds as 32 bytes 5, and a
  sample hash function, used only to run the model on concrete inputs.
\<close>

definition sample_channel :: "byte list channel" where
  "sample_channel =
     \<lparr>chanState = AwaitingRevocation, committedHash = Array32 (replicate 32 5),
      supersededHeights = 0, revocationWindow = []\<rparr>"

definition sample_hash :: "array32 \<Rightarrow> array32" where
  "sample_hash a = Array32 (map (\<lambda>b. b + 1) (bytes32 a))"

text \<open>
  A sample program state: a fresh receiver, the well-formed payload (channel reference
  of bytes 1, secret of bytes 6, the sample key, hash of bytes 4) cut after 132 bytes,
  and one channel.
\<close>

definition sample_truncated :: "(byte list, byte list channel list) program" where
  "sample_truncated =
     \<lparr>receiver = NewRevokeAndAck,
      input = replicate 36 1 @ replicate 32 6 @ sampleKey @ replicate 31 4,
      channels = [sample_channel]\<rparr>"

section \<open>omnihandler.go\<close>

text \<open>
  A Go error is modelled by its message. Standard output is the list of the
  \<^verbatim>\<open>fmt.Printf\<close> calls made, each with its format string and arguments; \<open>app\<close> is the
  rest of the program's state (peers, channels, the database), which only the message
  handlers and the store touch.
\<close>

type_synonym goerror = string

datatype arg = Hex "byte list" | HexByte byte | Str "byte list" | ErrStr goerror
  | Num int | OutPointStr OutPoint

record 's world =
  stdout :: "(string \<times> arg list) list"
  app :: 's

definition Printf :: "string \<Rightarrow> arg list \<Rightarrow> 's world \<Rightarrow> 's world" where
  "Printf format args w = w\<lparr>stdout := stdout w @ [(format, args)]\<rparr>"

text \<open>
  A call either returns its error value (nil is \<open>None\<close>), panics, or, for a loop that
  only a read error ends, is still blocked when its input is used up.
\<close>

datatype outcome = Returned "goerror option" | Panicked panic | Blocked

text \<open>
  The message ids of package uwire are constants that are not among the source files:
  they are a parameter of the model, as are the six handlers OmniHandler calls. A
  handler is taken to return: it is a function from the world before the call to the
  world after it.
\<close>

record msgids =
  MSGID_TEXTCHAT :: byte
  MSGID_PUBREQ :: byte
  MSGID_PUBRESP :: byte
  MSGID_MULTIDESC :: byte
  MSGID_MULTIACK :: byte
  MSGID_CLOSEREQ :: byte
  MSGID_CLOSERESP :: byte

record 's handlers =
  PubReqHandler :: "array16 \<Rightarrow> 's world \<Rightarrow> 's world"
  PubRespHandler :: "array16 \<Rightarrow> byte list \<Rightarrow> 's world \<Rightarrow> 's world"
  QChanDescHandler :: "array16 \<Rightarrow> byte list \<Rightarrow> 's world \<Rightarrow> 's world"
  QChanAckHandler :: "array16 \<Rightarrow> byte list \<Rightarrow> 's world \<Rightarrow> 's world"
  CloseReqHandler :: "array16 \<Rightarrow> byte list \<Rightarrow> 's world \<Rightarrow> 's world"
  CloseRespHandler :: "array16 \<Rightarrow> byte list \<Rightarrow> 's world \<Rightarrow> 's world"


text \<open>
  One iteration of the loop of \<^verbatim>\<open>OmniHandler\<close>, for the frame \<open>newdata\<close> received from
  the channel. The variable \<open>from\<close> is declared outside the loop, so it is part of
  the loop's state.
\<close>

definition OmniHandler_iteration ::
  "msgids \<Rightarrow> 's handlers \<Rightarrow> byte list \<Rightarrow> array16 \<times> 's world \<Rightarrow> array16 \<times> 's world" where
  "OmniHandler_iteration ids hs newdata = (\<lambda>(from0, w).
     if length newdata < 17 then (from0, Printf ''got too short message'' [] w)
     else
       let from = Array16 (take 16 newdata);
           msg = drop 16 newdata;
           msgid = msg ! 0
       in
         if msgid = MSGID_TEXTCHAT ids then
           (from, Printf ''text from %x: %s\<newline>'' [Hex (bytes16 from), Str (drop 1 msg)] w)
         else if msgid = MSGID_PUBREQ ids then
           (from, PubReqHandler hs from
              (Printf ''got pubkey req from %x\<newline>'' [Hex (bytes16 from)] w))
         else if msgid = MSGID_PUBRESP ids then
           (from, PubRespHandler hs from (drop 1 msg)
              (Printf ''got pubkey response from %x\<newline>'' [Hex (bytes16 from)] w))
         else if msgid = MSGID_MULTIDESC ids then
           (from, QChanDescHandler hs from (drop 1 msg)
              (Printf ''Got multisig description from %x\<newline>'' [Hex (bytes16 from)] w))
         else if msgid = MSGID_MULTIACK ids then
           (from, QChanAckHandler hs from (drop 1 msg)
              (Printf ''Got multisig ack from %x\<newline>'' [Hex (bytes16 from)] w))
         else if msgid = MSGID_CLOSEREQ ids then
           (from, CloseReqHandler hs from (drop 1 msg)
              (Printf ''Got close request from %x\<newline>'' [Hex (bytes16 from)] w))
         else if msgid = MSGID_CLOSERESP ids then
           (from, CloseRespHandler hs from (drop 1 msg)
              (Printf ''Got close response from %x\<newline>'' [Hex (bytes16 from)] w))
         else (from, Printf ''Unknown message id byte %x'' [HexByte msgid] w))"

text \<open>
  \<^verbatim>\<open>OmniHandler\<close> never returns: it receives frame after frame. \<open>OmniHandler_loop\<close> is
  the state reached once the frames \<open>OmniChan\<close> have been received, in their order,
  when the loop blocks on the next receive.
\<close>

fun OmniHandler_loop ::
  "msgids \<Rightarrow> 's handlers \<Rightarrow> byte list list \<Rightarrow> array16 \<times> 's world \<Rightarrow> array16 \<times> 's world" where
  "OmniHandler_loop ids hs [] s = s"
| "OmniHandler_loop ids hs (newdata # OmniChan) s =
     OmniHandler_loop ids hs OmniChan (OmniHandler_iteration ids hs newdata s)"

definition OmniHandler :: "msgids \<Rightarrow> 's handlers \<Rightarrow> byte list list \<Rightarrow> 's world \<Rightarrow> 's world" where
  "OmniHandler ids hs OmniChan w = snd (OmniHandler_loop ids hs OmniChan (zero16, w))"

text \<open>
  The connection to the remote peer (\<^verbatim>\<open>RemoteCon\<close>, a pointer that is nil until a peer
  is connected) with the one field the code reads.
\<close>

record 'pk LNDConn =
  RemotePub :: 'pk

text \<open>
  The loop of \<^verbatim>\<open>LNDCReceiver\<close>. The connection \<open>l\<close> is the list of the results of its
  \<^verbatim>\<open>Read\<close> calls, each an error or the \<open>n\<close> bytes read into the 65535-byte buffer;
  \<open>closeErr\<close> is what \<^verbatim>\<open>l.Close()\<close> returns. The state is the list of frames sent on
  \<open>OmniChan\<close> so far, and the world.
\<close>

fun LNDCReceiver_loop ::
  "(goerror + byte list) list \<Rightarrow> goerror option \<Rightarrow> array16 \<Rightarrow> byte list list \<times> 's world \<Rightarrow>
     outcome \<times> byte list list \<times> 's world" where
  "LNDCReceiver_loop [] closeErr id' (OmniChan, w) = (Blocked, OmniChan, w)"
| "LNDCReceiver_loop (Inl err # l) closeErr id' (OmniChan, w) =
     (Returned closeErr, OmniChan,
      Printf ''read error with %x: %s\<newline>'' [Hex (bytes16 id'), ErrStr err] w)"
| "LNDCReceiver_loop (Inr data # l) closeErr id' (OmniChan, w) =
     (let msg = bytes16 id' @ data
      in LNDCReceiver_loop l closeErr id'
           (OmniChan @ [msg], Printf ''incoming msg %x\<newline>'' [Hex msg] w))"

text \<open>
  \<^verbatim>\<open>LNDCReceiver\<close>: \<open>NewPeer\<close> is the store's method (not among the source files), a
  parameter that returns its error and the world it leaves.
\<close>

definition LNDCReceiver ::
  "'pk LNDConn option \<Rightarrow> ('pk \<Rightarrow> 's world \<Rightarrow> goerror option \<times> 's world) \<Rightarrow>
   (goerror + byte list) list \<Rightarrow> goerror option \<Rightarrow> array16 \<Rightarrow> byte list list \<times> 's world \<Rightarrow>
     outcome \<times> byte list list \<times> 's world" where
  "LNDCReceiver RemoteCon NewPeer l closeErr id' = (\<lambda>(OmniChan, w).
     case RemoteCon of
       None \<Rightarrow> (Panicked NilPointerDereference, OmniChan, w)
     | Some con \<Rightarrow>
         (case NewPeer (RemotePub con) w of
            (Some err, w1) \<Rightarrow> (Returned (Some err), OmniChan, w1)
          | (None, w1) \<Rightarrow> LNDCReceiver_loop l closeErr id' (OmniChan, w1)))"

text \<open>
  A channel as the store returns it (\<^verbatim>\<open>GetAllQchans\<close>), with the fields that
  \<^verbatim>\<open>BreakChannel\<close> reads; the declaration is not among the source files.
\<close>

record Qchan =
  PeerIdx :: "32 word"
  KeyIdx :: "32 word"
  AtHeight :: int
  Op :: OutPoint
  Value :: int

text \<open>
  The search loop of \<^verbatim>\<open>BreakChannel\<close>: the first channel of the current peer sets
  \<open>opBytes\<close> and ends the loop.
\<close>

fun BreakChannel_loop ::
  "(OutPoint \<Rightarrow> byte list) \<Rightarrow> 32 word \<Rightarrow> Qchan list \<Rightarrow> byte list \<times> 's world \<Rightarrow>
     byte list \<times> 's world" where
  "BreakChannel_loop OutPointToBytes currentPeerIdx [] (opBytes, w) = (opBytes, w)"
| "BreakChannel_loop OutPointToBytes currentPeerIdx (m # multis) (opBytes, w) =
     (if PeerIdx m = currentPeerIdx then
        (OutPointToBytes (Op m),
         Printf ''peerIdx %d multIdx %d height %d %s amt: %d\<newline>''
           [Num (uint (PeerIdx m)), Num (uint (KeyIdx m)), Num (AtHeight m),
            OutPointStr (Op m), Num (Value m)] w)
      else BreakChannel_loop OutPointToBytes currentPeerIdx multis (opBytes, w))"

text \<open>
  \<^verbatim>\<open>BreakChannel\<close>. The store's \<^verbatim>\<open>GetPeerIdx\<close> and the result of \<^verbatim>\<open>GetAllQchans\<close>, and
  \<^verbatim>\<open>uspv.OutPointToBytes\<close>, are parameters (they are not among the source files).
  \<open>opBytes\<close> starts as the nil slice; the write \<^verbatim>\<open>opBytes[0] = 0x00\<close> panics on a
  slice of length 0, and its effect on a longer one is local to the function.
\<close>

definition BreakChannel ::
  "'pk LNDConn option \<Rightarrow> ('pk \<Rightarrow> goerror + 32 word) \<Rightarrow> (goerror + Qchan list) \<Rightarrow>
   (OutPoint \<Rightarrow> byte list) \<Rightarrow> string list \<Rightarrow> 's world \<Rightarrow> outcome \<times> 's world" where
  "BreakChannel RemoteCon GetPeerIdx GetAllQchans OutPointToBytes args w =
     (case RemoteCon of
        None \<Rightarrow> (Panicked NilPointerDereference, w)
      | Some con \<Rightarrow>
          (case GetPeerIdx (RemotePub con) of
             Inl err \<Rightarrow> (Returned (Some err), w)
           | Inr currentPeerIdx \<Rightarrow>
               (case GetAllQchans of
                  Inl err \<Rightarrow> (Returned (Some err), w)
                | Inr multis \<Rightarrow>
                    (case BreakChannel_loop OutPointToBytes currentPeerIdx multis ([], w) of
                       (opBytes, w1) \<Rightarrow>
                         if length opBytes = 0 then (Panicked IndexOutOfRange, w1)
                         else (Returned None, w1)))))"

text \<open>
  Sample parameters, used only to run the model on concrete inputs: message ids (the
  values of package uwire are not among the source files), handlers that record their
  call in the application state, and a store.
\<close>

definition sample_msgids :: msgids where
  "sample_msgids =
     \<lparr>MSGID_TEXTCHAT = 0x70, MSGID_PUBREQ = 0x30, MSGID_PUBRESP = 0x31,
      MSGID_MULTIDESC = 0x32, MSGID_MULTIACK = 0x33, MSGID_CLOSEREQ = 0x40,
      MSGID_CLOSERESP = 0x41\<rparr>"

datatype call = PubReq array16 | PubResp array16 "byte list" | QChanDesc array16 "byte list"
  | QChanAck array16 "byte list" | CloseReq array16 "byte list" | CloseResp array16 "byte list"

definition record_call :: "call \<Rightarrow> call list world \<Rightarrow> call list world" where
  "record_call c w = w\<lparr>app := app w @ [c]\<rparr>"

definition recording_handlers :: "call list handlers" where
  "recording_handlers =
     \<lparr>PubReqHandler = (\<lambda>from. record_call (PubReq from)),
      PubRespHandler = (\<lambda>from b. record_call (PubResp from b)),
      QChanDescHandler = (\<lambda>from b. record_call (QChanDesc from b)),
      QChanAckHandler = (\<lambda>from b. record_call (QChanAck from b)),
      CloseReqHandler = (\<lambda>from b. record_call (CloseReq from b)),
      CloseRespHandler = (\<lambda>from b. record_call (CloseResp from b))\<rparr>"

definition empty_world :: "call list world" where
  "empty_world = \<lparr>stdout = [], app = []\<rparr>"

definition sample_RemoteCon :: "byte list LNDConn option" where
  "sample_RemoteCon = Some \<lparr>RemotePub = 2 # replicate 32 9\<rparr>"

definition sample_GetPeerIdx :: "byte list \<Rightarrow> goerror + 32 word" where
  "sample_GetPeerIdx pub = Inr 1"

definition sample_Qchan :: Qchan where
  "sample_Qchan =
     \<lparr>PeerIdx = 2, KeyIdx = 0, AtHeight = 100, Op = \<lparr>Hash = zero32, Index = 0\<rparr>,
      Value = 1000\<rparr>"

definition sample_OutPointToBytes :: "OutPoint \<Rightarrow> byte list" where
  "sample_OutPointToBytes op = bytes32 (Hash op) @ PutUint32 (Index op)"

section \<open>Properties of RevokeAndAck\<close>

lemma ReadFull_append: "length b = length buf \<Longrightarrow> ReadFull (b @ r) buf = Inr (b, r)"
  by (simp add: ReadFull_def)

lemma Uint32_PutUint32: "Uint32 (PutUint32 v) = v"
proof (rule bit_word_eqI)
  fix n assume "n < LENGTH(32)"
  then consider "n < 8" | "8 \<le> n \<and> n < 16" | "16 \<le> n \<and> n < 24" | "24 \<le> n \<and> n < 32"
    by fastforce
  then show "bit (Uint32 (PutUint32 v)) n = bit v n"
    by cases (auto simp: Uint32_def PutUint32_def bit_simps)
qed

lemma length_PutUint32: "length (PutUint32 v) = 4"
  by (simp add: PutUint32_def)

lemma length_bytes32: "length (bytes32 a) = 32"
  using bytes32 [of a] by simp

lemma readElement_OutPoint_append:
  "length hb = 32 \<Longrightarrow> length ib = 4 \<Longrightarrow>
   readElement_OutPoint (hb @ ib @ r) = Inr (\<lparr>Hash = Array32 hb, Index = Uint32 ib\<rparr>, r)"
  by (simp add: readElement_OutPoint_def ReadFull_append)

text \<open>Decoding a payload given as its five parts.\<close>

lemma Decode_payload:
  assumes "length hb = 32" "length ib = 4" "length sb = 32" "length kb = 33" "length nb = 32"
    and "ParsePubKey kb = Some k"
  shows "Decode ParsePubKey c (hb @ ib @ sb @ kb @ nb @ r) pver =
           Inr (c\<lparr>ChannelPoint := \<lparr>Hash = Array32 hb, Index = Uint32 ib\<rparr>,
                  Revocation := Array32 sb, NextRevocationKey := Some k,
                  NextRevocationHash := Array32 nb\<rparr>, r)"
  using assms
  by (simp add: Decode_def readElement_OutPoint_append readElement_bytes_def
      readElement_PublicKey_def ReadFull_append length_bytes32)

lemma Encode_bytes:
  "NextRevocationKey m = Some k \<Longrightarrow>
   Encode SerializeCompressed m w pver =
     Inr (w @ bytes32 (Hash (ChannelPoint m)) @ PutUint32 (Index (ChannelPoint m)) @
          bytes32 (Revocation m) @ take 33 (SerializeCompressed k @ replicate 33 0) @
          bytes32 (NextRevocationHash m))"
  by (simp add: Encode_def writeElement_OutPoint_def writeElement_bytes_def
      writeElement_PublicKey_def)

text \<open>
  A nil key is the only way for Encode to fail: it panics when the channel reference
  and the secret, 68 bytes, have been written.
\<close>

lemma Encode_nil_key:
  "NextRevocationKey m = None \<Longrightarrow>
   Encode SerializeCompressed m w pver =
     Inl (NilPointerDereference,
          w @ bytes32 (Hash (ChannelPoint m)) @ PutUint32 (Index (ChannelPoint m)) @
          bytes32 (Revocation m))"
  by (simp add: Encode_def writeElement_OutPoint_def writeElement_bytes_def
      writeElement_PublicKey_def)

text \<open>Whatever the key library returns, an encoded message has 133 bytes.\<close>

lemma Encode_length:
  "Encode SerializeCompressed m [] pver = Inr bs \<Longrightarrow> length bs = 133"
  by (cases "NextRevocationKey m")
    (auto simp: Encode_nil_key Encode_bytes length_bytes32 length_PutUint32)

lemma Decode_Encode:
  assumes key: "NextRevocationKey m = Some k"
    and wf: "well_formed_key ParsePubKey SerializeCompressed k"
  shows "\<exists>bs. Encode SerializeCompressed m [] pver = Inr bs \<and>
           Decode ParsePubKey c bs pver' = Inr (m, [])"
proof -
  let ?kb = "SerializeCompressed k"
  let ?bs = "bytes32 (Hash (ChannelPoint m)) @ PutUint32 (Index (ChannelPoint m)) @
          bytes32 (Revocation m) @ ?kb @ bytes32 (NextRevocationHash m) @ []"
  from wf have len: "length ?kb = 33" and parse: "ParsePubKey ?kb = Some k"
    by (simp_all add: well_formed_key_def)
  have enc: "Encode SerializeCompressed m [] pver = Inr ?bs"
    using key len by (simp add: Encode_bytes)
  have "Decode ParsePubKey c ?bs pver' =
      Inr (c\<lparr>ChannelPoint := \<lparr>Hash = Array32 (bytes32 (Hash (ChannelPoint m))),
                Index = Uint32 (PutUint32 (Index (ChannelPoint m)))\<rparr>,
             Revocation := Array32 (bytes32 (Revocation m)), NextRevocationKey := Some k,
             NextRevocationHash := Array32 (bytes32 (NextRevocationHash m))\<rparr>, [])"
    by (rule Decode_payload) (simp_all add: length_bytes32 length_PutUint32 len parse)
  also have "\<dots> = Inr (m, [])"
    using key by (simp add: bytes32_inverse Uint32_PutUint32)
  finally have "Decode ParsePubKey c ?bs pver' = Inr (m, [])" .
  with enc show ?thesis by blast
qed

text \<open>Decoding a payload of at least 133 bytes, by the positions of its bytes.\<close>

lemma Decode_slices:
  assumes "133 \<le> length r" and "ParsePubKey (take 33 (drop 68 r)) = Some k"
  shows "Decode ParsePubKey c r pver =
           Inr (c\<lparr>ChannelPoint := \<lparr>Hash = Array32 (take 32 r), Index = Uint32 (take 4 (drop 32 r))\<rparr>,
                  Revocation := Array32 (take 32 (drop 36 r)),
                  NextRevocationKey := Some k,
                  NextRevocationHash := Array32 (take 32 (drop 101 r))\<rparr>, drop 133 r)"
proof -
  from assms(1) have "32 \<le> length r" "4 \<le> length r - 32" "32 \<le> length r - 36"
    "33 \<le> length r - 68" "32 \<le> length r - 101"
    by simp_all
  then show ?thesis
    using assms(2)
    by (simp add: Decode_def readElement_OutPoint_def readElement_bytes_def
        readElement_PublicKey_def ReadFull_def length_bytes32)
qed

text \<open>A stream of fewer than 133 bytes makes Decode fail.\<close>

lemma Decode_short:
  assumes "length r < 133"
  shows "\<exists>err c' r'. Decode ParsePubKey c r pver = Inl (err, c', r')"
  using assms
  by (auto simp: Decode_def readElement_OutPoint_def readElement_bytes_def
      readElement_PublicKey_def ReadFull_def length_bytes32
      split: sum.splits option.splits if_splits prod.splits)

text \<open>
  The state a failed decode leaves, for a stream of fewer than 133 bytes: the error,
  the receiver and the reader, by the number of bytes the stream holds. The channel
  reference is set once 36 bytes were there; the secret and the next revocation hash
  are slices of the receiver, so a short read leaves the bytes it got in their front;
  the key is set once its 33 bytes were there and parsed.
\<close>

lemma Decode_truncated_post_state:
  assumes "length r < 133"
  shows "Decode ParsePubKey c r pver =
    Inl (if 101 \<le> length r \<and> ParsePubKey (take 33 (drop 68 r)) = None then ErrInvalidPubKey
         else if length r \<in> {0, 32, 36, 68, 101} then EOF
         else ErrUnexpectedEOF,
         if length r < 36 then c
         else if length r < 68 then
           c\<lparr>ChannelPoint := \<lparr>Hash = Array32 (take 32 r), Index = Uint32 (take 4 (drop 32 r))\<rparr>,
             Revocation :=
               Array32 (drop 36 r @ drop (length r - 36) (bytes32 (Revocation c)))\<rparr>
         else if length r < 101 then
           c\<lparr>ChannelPoint := \<lparr>Hash = Array32 (take 32 r), Index = Uint32 (take 4 (drop 32 r))\<rparr>,
             Revocation := Array32 (take 32 (drop 36 r))\<rparr>
         else
           (case ParsePubKey (take 33 (drop 68 r)) of
              None \<Rightarrow>
                c\<lparr>ChannelPoint :=
                    \<lparr>Hash = Array32 (take 32 r), Index = Uint32 (take 4 (drop 32 r))\<rparr>,
                  Revocation := Array32 (take 32 (drop 36 r))\<rparr>
            | Some k \<Rightarrow>
                c\<lparr>ChannelPoint :=
                    \<lparr>Hash = Array32 (take 32 r), Index = Uint32 (take 4 (drop 32 r))\<rparr>,
                  Revocation := Array32 (take 32 (drop 36 r)),
                  NextRevocationKey := Some k,
                  NextRevocationHash :=
                    Array32 (drop 101 r @ drop (length r - 101) (bytes32 (NextRevocationHash c)))\<rparr>),
         if 101 \<le> length r \<and> ParsePubKey (take 33 (drop 68 r)) = None then drop 101 r else [])"
proof -
  consider "length r < 32" | "32 \<le> length r" "length r < 36" | "36 \<le> length r" "length r < 68"
    | "68 \<le> length r" "length r < 101" | "101 \<le> length r"
    by linarith
  then show ?thesis
  proof cases
    case 1
    then show ?thesis
      by (simp add: Decode_def readElement_OutPoint_def ReadFull_def)
  next
    case 2
    then have "length r - 32 < 4" by simp
    with 2 show ?thesis
      by (auto simp: Decode_def readElement_OutPoint_def ReadFull_def)
  next
    case 3
    then have "4 \<le> length r - 32" "length r - 36 < 32" by simp_all
    with 3 show ?thesis
      by (auto simp: Decode_def readElement_OutPoint_def readElement_bytes_def ReadFull_def
          length_bytes32 bytes32_inverse)
  next
    case 4
    then have "4 \<le> length r - 32" "32 \<le> length r - 36" "length r - 68 < 33" by simp_all
    with 4 show ?thesis
      by (auto simp: Decode_def readElement_OutPoint_def readElement_bytes_def
          readElement_PublicKey_def ReadFull_def length_bytes32)
  next
    case 5
    with assms have "4 \<le> length r - 32" "32 \<le> length r - 36" "33 \<le> length r - 68"
      "length r - 101 < 32" "36 \<le> length r" "68 \<le> length r"
      by simp_all
    with 5 show ?thesis
      by (auto simp: Decode_def readElement_OutPoint_def readElement_bytes_def
          readElement_PublicKey_def ReadFull_def length_bytes32 split: option.splits)
  qed
qed

lemma sampleKey_parses: "sampleParsePubKey sampleKey = Some sampleKey"
  by (simp add: sampleParsePubKey_def)

lemma length_sampleKey: "length sampleKey = 33"
  by (simp add: sampleKey_def)

lemma replicate_4: "replicate 4 x = [x, x, x, x]"
  by (simp add: eval_nat_numeral)

lemma replicate_5: "replicate 5 x = [x, x, x, x, x]"
  by (simp add: eval_nat_numeral)

lemma not_a_key: "sampleParsePubKey (replicate 5 9 @ replicate 28 4) = None"
  by (simp add: sampleParsePubKey_def sampleKey_def replicate_5)

text \<open>
  Claim C1. Decoding a byte stream of fewer than 133 bytes, so every truncation of a
  well-formed RevokeAndAck payload, returns an error, whatever the receiver holds and
  whatever the key library accepts. The failed call changes the receiver (the fields
  read before the failure are overwritten) and the reader, and nothing else of the
  program state: the channels are as before the call.
\<close>

theorem Decode_truncated_is_error:
  assumes "length (input s) < 133"
  shows "\<exists>err c' r'. Decode ParsePubKey (receiver s) (input s) pver = Inl (err, c', r') \<and>
           Decode_call ParsePubKey pver s = (Some err, s\<lparr>receiver := c', input := r'\<rparr>) \<and>
           channels (snd (Decode_call ParsePubKey pver s)) = channels s"
proof -
  from Decode_short [OF assms] obtain err c' r'
    where "Decode ParsePubKey (receiver s) (input s) pver = Inl (err, c', r')"
    by blast
  then show ?thesis
    by (simp add: Decode_call_def)
qed

theorem Decode_truncated_is_error_witness:
  "length (input sample_truncated) < 133 \<and>
   Decode_call sampleParsePubKey 0 sample_truncated =
     (Some ErrUnexpectedEOF,
      sample_truncated\<lparr>receiver :=
          \<lparr>ChannelPoint = \<lparr>Hash = Array32 (replicate 32 1), Index = 0x01010101\<rparr>,
           Revocation = Array32 (replicate 32 6), NextRevocationKey = Some sampleKey,
           NextRevocationHash = Array32 (replicate 31 4 @ [0])\<rparr>,
        input := []\<rparr>) \<and>
   channels (snd (Decode_call sampleParsePubKey 0 sample_truncated)) = [sample_channel]"
proof -
  have len: "length (input sample_truncated) < 133"
    by (simp add: sample_truncated_def length_sampleKey)
  have idx: "Uint32 (replicate 4 1) = 0x01010101"
    by (simp add: Uint32_def eval_nat_numeral)
  have zeros: "bytes32 zero32 = replicate 32 0"
    by (simp add: zero32_def Array32_inverse)
  have "Decode sampleParsePubKey NewRevokeAndAck
      (replicate 36 1 @ replicate 32 6 @ sampleKey @ replicate 31 4) 0 =
    Inl (ErrUnexpectedEOF,
       \<lparr>ChannelPoint = \<lparr>Hash = Array32 (replicate 32 1), Index = 0x01010101\<rparr>,
        Revocation = Array32 (replicate 32 6), NextRevocationKey = Some sampleKey,
        NextRevocationHash = Array32 (replicate 31 4 @ [0])\<rparr>, [])"
    by (simp add: Decode_def readElement_OutPoint_def readElement_bytes_def
        readElement_PublicKey_def ReadFull_def length_sampleKey sampleKey_parses idx zeros
        NewRevokeAndAck_def replicate_append_same)
  then have call: "Decode_call sampleParsePubKey 0 sample_truncated =
     (Some ErrUnexpectedEOF,
      sample_truncated\<lparr>receiver :=
          \<lparr>ChannelPoint = \<lparr>Hash = Array32 (replicate 32 1), Index = 0x01010101\<rparr>,
           Revocation = Array32 (replicate 32 6), NextRevocationKey = Some sampleKey,
           NextRevocationHash = Array32 (replicate 31 4 @ [0])\<rparr>,
        input := []\<rparr>)"
    by (simp add: Decode_call_def sample_truncated_def)
  show ?thesis
    using len call Decode_truncated_is_error [OF len, of sampleParsePubKey 0]
    by (simp add: sample_truncated_def)
qed

text \<open>
  Claim C2. MaxPayloadLength returns 133 for every message and every protocol version,
  and 133 is 36 + 32 + 33 + 32.
\<close>

theorem MaxPayloadLength_is_133:
  "MaxPayloadLength c pver = 133 \<and> MaxPayloadLength c pver = 36 + 32 + 33 + 32"
  by (simp add: MaxPayloadLength_def)

text \<open>
  Claim C3, as amended. Validate makes no field-level check: it returns nil for every
  RevokeAndAck value.
\<close>

theorem Validate_returns_nil: "Validate c = None"
  by (simp add: Validate_def)

text \<open>
  The claim as stated fails: the message with a zero channel reference and a nil next
  revocation key is not rejected, and no message is.
\<close>

theorem Validate_error_counterexample:
  "Validate (\<lparr>ChannelPoint = \<lparr>Hash = zero32, Index = 0\<rparr>, Revocation = zero32,
      NextRevocationKey = None, NextRevocationHash = zero32\<rparr> :: byte list RevokeAndAck) = None \<and>
   \<not> (\<exists>c :: byte list RevokeAndAck. Validate c \<noteq> None)"
  by (simp add: Validate_def)

text \<open>
  Claim C4. For every message whose next revocation key is well formed, Encode succeeds
  and decoding the bytes it wrote, into any receiver, yields that message and leaves no
  byte unread.
\<close>

theorem Decode_after_Encode:
  assumes "NextRevocationKey m = Some k"
    and "well_formed_key ParsePubKey SerializeCompressed k"
  shows "\<exists>bs. Encode SerializeCompressed m [] pver = Inr bs \<and>
           Decode ParsePubKey c bs pver = Inr (m, [])"
  using assms by (rule Decode_Encode)

theorem Decode_after_Encode_witness:
  "NextRevocationKey \<lparr>ChannelPoint = \<lparr>Hash = Array32 (replicate 32 7), Index = 5\<rparr>,
      Revocation = Array32 (replicate 32 6), NextRevocationKey = Some (2 # replicate 32 9),
      NextRevocationHash = Array32 (replicate 32 8)\<rparr> = Some (2 # replicate 32 9) \<and>
   well_formed_key sampleParsePubKey sampleSerializeCompressed (2 # replicate 32 9) \<and>
   (\<exists>bs. Encode sampleSerializeCompressed
        \<lparr>ChannelPoint = \<lparr>Hash = Array32 (replicate 32 7), Index = 5\<rparr>,
         Revocation = Array32 (replicate 32 6), NextRevocationKey = Some (2 # replicate 32 9),
         NextRevocationHash = Array32 (replicate 32 8)\<rparr> [] 0 = Inr bs \<and>
      Decode sampleParsePubKey NewRevokeAndAck bs 0 =
        Inr (\<lparr>ChannelPoint = \<lparr>Hash = Array32 (replicate 32 7), Index = 5\<rparr>,
              Revocation = Array32 (replicate 32 6),
              NextRevocationKey = Some (2 # replicate 32 9),
              NextRevocationHash = Array32 (replicate 32 8)\<rparr>, []))"
proof -
  have wf: "well_formed_key sampleParsePubKey sampleSerializeCompressed (2 # replicate 32 9)"
    by (simp add: well_formed_key_def sampleParsePubKey_def sampleSerializeCompressed_def
        sampleKey_def)
  show ?thesis
    using wf Decode_after_Encode [OF _ wf,
        of "\<lparr>ChannelPoint = \<lparr>Hash = Array32 (replicate 32 7), Index = 5\<rparr>,
             Revocation = Array32 (replicate 32 6),
             NextRevocationKey = Some (2 # replicate 32 9),
             NextRevocationHash = Array32 (replicate 32 8)\<rparr>" 0 NewRevokeAndAck]
    by simp
qed

text \<open>
  Claim C5, as amended. Decode parses a payload of at least 133 bytes as, in this order:
  the channel reference in 36 bytes (bytes 0 to 35: the 32-byte hash, then the 4-byte
  index), the 32-byte disclosed secret (bytes 36 to 67), the 33-byte next revocation
  public key (bytes 68 to 100) and the 32-byte next revocation hash (bytes 101 to 132).
\<close>

theorem Decode_field_layout:
  assumes "133 \<le> length r" and "ParsePubKey (take 33 (drop 68 r)) = Some k"
  shows "Decode ParsePubKey c r pver =
           Inr (c\<lparr>ChannelPoint := \<lparr>Hash = Array32 (take 32 r), Index = Uint32 (take 4 (drop 32 r))\<rparr>,
                  Revocation := Array32 (take 32 (drop 36 r)),
                  NextRevocationKey := Some k,
                  NextRevocationHash := Array32 (take 32 (drop 101 r))\<rparr>, drop 133 r)"
  using assms by (rule Decode_slices)

theorem Decode_field_layout_witness:
  "133 \<le> length (replicate 36 (1 :: byte) @ replicate 32 6 @ sampleKey @ replicate 32 4) \<and>
   sampleParsePubKey
     (take 33 (drop 68 (replicate 36 1 @ replicate 32 6 @ sampleKey @ replicate 32 4))) =
     Some sampleKey \<and>
   Decode sampleParsePubKey NewRevokeAndAck
     (replicate 36 1 @ replicate 32 6 @ sampleKey @ replicate 32 4) 0 =
     Inr (\<lparr>ChannelPoint = \<lparr>Hash = Array32 (replicate 32 1), Index = 0x01010101\<rparr>,
           Revocation = Array32 (replicate 32 6), NextRevocationKey = Some sampleKey,
           NextRevocationHash = Array32 (replicate 32 4)\<rparr>, [])"
proof -
  let ?r = "replicate 36 (1 :: byte) @ replicate 32 6 @ sampleKey @ replicate 32 4"
  have len: "133 \<le> length ?r"
    by (simp add: length_sampleKey)
  have key: "sampleParsePubKey (take 33 (drop 68 ?r)) = Some sampleKey"
    by (simp add: length_sampleKey sampleKey_parses)
  have idx: "Uint32 (replicate 4 1) = 0x01010101"
    by (simp add: Uint32_def eval_nat_numeral)
  show ?thesis
    using len key idx
      Decode_field_layout [where r = ?r and ParsePubKey = sampleParsePubKey
        and k = sampleKey and c = NewRevokeAndAck and pver = 0]
    by (simp add: NewRevokeAndAck_def length_sampleKey)
qed

text \<open>
  The claim as stated fails. Take the payload laid out as the claim says: a channel
  reference of 8 bytes 1, a secret of 32 bytes 2, the sample key and a hash of 32 bytes
  4, 105 bytes in all. Decode does not parse it: it takes bytes 0 to 35 as the channel
  reference and bytes 36 to 67 as the secret, and fails on bytes 68 to 100, which begin
  with the byte 9 of the key's abscissa and so are no public key.
\<close>

theorem Decode_field_layout_counterexample:
  "Decode sampleParsePubKey (NewRevokeAndAck :: byte list RevokeAndAck)
     (replicate 8 1 @ replicate 32 2 @ sampleKey @ replicate 32 4) 0 =
   Inl (ErrInvalidPubKey,
        NewRevokeAndAck
          \<lparr>ChannelPoint := \<lparr>Hash = Array32 (replicate 8 1 @ replicate 24 2), Index = 0x02020202\<rparr>,
           Revocation := Array32 (replicate 4 2 @ 2 # replicate 27 9)\<rparr>,
        replicate 4 4)"
proof -
  have idx: "Uint32 (replicate 4 2) = 0x02020202"
    by (simp add: Uint32_def replicate_4)
  have zeros: "bytes32 zero32 = replicate 32 0"
    by (simp add: zero32_def Array32_inverse)
  have input: "replicate 8 1 @ replicate 32 2 @ sampleKey @ replicate 32 4 =
      (replicate 8 1 @ replicate 24 2) @ replicate 4 2 @ (replicate 4 2 @ 2 # replicate 27 9) @
      (replicate 5 9 @ replicate 28 (4 :: byte)) @ replicate 4 4"
    by (simp add: sampleKey_def replicate_add [symmetric] append_replicate_commute
        replicate_app_Cons_same)
  show ?thesis
    unfolding input
    by (simp add: Decode_def readElement_OutPoint_def readElement_bytes_def
        readElement_PublicKey_def ReadFull_def not_a_key idx zeros NewRevokeAndAck_def)
qed

text \<open>
  In the state machine, a revocation that is not all zero and whose hash is not the
  committed value breaches the channel.
\<close>

lemma nonzero_mismatch_is_breach:
  "chanState ch \<noteq> Breached \<Longrightarrow> Revocation m \<noteq> zero32 \<Longrightarrow>
   hash (Revocation m) \<noteq> committedHash ch \<Longrightarrow>
   chanState (revocation_received hash m ch) = Breached"
  by (simp add: revocation_received_def)

text \<open>
  Claim C6. A payload whose 32 secret bytes are all zero is a well-formed message:
  Decode accepts it, with the all-zero array as its Revocation, and Validate returns
  nil for it. The state machine takes it as the sentinel: in every state but Breached
  the message only seeds the revocation window with its next key and next hash, for
  every hash function and every committed value, so the zero value is never
  hash-checked and never breaches the channel.
\<close>

theorem zero_Revocation_is_accepted:
  assumes "length cp = 36" "length kb = 33" "length nb = 32" "ParsePubKey kb = Some k"
    and "chanState ch \<noteq> Breached"
  shows "\<exists>m. Decode ParsePubKey c (cp @ replicate 32 0 @ kb @ nb) pver = Inr (m, []) \<and>
           Revocation m = zero32 \<and> Validate m = None \<and>
           revocation_received hash m ch =
             ch\<lparr>revocationWindow := revocationWindow ch @ [(Some k, Array32 nb)]\<rparr>"
proof -
  let ?m = "c\<lparr>ChannelPoint := \<lparr>Hash = Array32 (take 32 cp), Index = Uint32 (drop 32 cp)\<rparr>,
             Revocation := Array32 (replicate 32 0), NextRevocationKey := Some k,
             NextRevocationHash := Array32 nb\<rparr>"
  have parts: "cp @ replicate 32 0 @ kb @ nb =
      take 32 cp @ drop 32 cp @ replicate 32 0 @ kb @ nb @ []"
    by (metis append_assoc append_take_drop_id append_Nil2)
  have "Decode ParsePubKey c (take 32 cp @ drop 32 cp @ replicate 32 0 @ kb @ nb @ []) pver =
      Inr (?m, [])"
    by (rule Decode_payload) (simp_all add: assms)
  then have "Decode ParsePubKey c (cp @ replicate 32 0 @ kb @ nb) pver = Inr (?m, [])"
    by (simp only: parts)
  moreover have "Revocation ?m = zero32" and "Validate ?m = None"
    by (simp_all add: zero32_def Validate_def)
  moreover have "revocation_received hash ?m ch =
      ch\<lparr>revocationWindow := revocationWindow ch @ [(Some k, Array32 nb)]\<rparr>"
    using assms(5) by (simp add: revocation_received_def zero32_def)
  ultimately show ?thesis
    by blast
qed

theorem zero_Revocation_is_accepted_witness:
  "sampleParsePubKey sampleKey = Some sampleKey \<and>
   chanState sample_channel = AwaitingRevocation \<and>
   sample_hash zero32 = Array32 (replicate 32 1) \<and>
   committedHash sample_channel = Array32 (replicate 32 5) \<and>
   (\<exists>m. Decode sampleParsePubKey NewRevokeAndAck
       (replicate 36 1 @ replicate 32 0 @ sampleKey @ replicate 32 4) 0 = Inr (m, []) \<and>
     Revocation m = zero32 \<and> Validate m = None \<and>
     revocation_received sample_hash m sample_channel =
       sample_channel\<lparr>revocationWindow := [(Some sampleKey, Array32 (replicate 32 4))]\<rparr>)"
proof -
  have hash: "sample_hash zero32 = Array32 (replicate 32 1)"
    by (simp add: sample_hash_def zero32_def Array32_inverse)
  show ?thesis
    using hash sampleKey_parses
      zero_Revocation_is_accepted [where cp = "replicate 36 1" and kb = sampleKey
        and nb = "replicate 32 4" and ParsePubKey = sampleParsePubKey and k = sampleKey
        and ch = sample_channel and hash = sample_hash and c = NewRevokeAndAck and pver = 0]
    by (simp add: length_sampleKey sample_channel_def)
qed

section \<open>Properties of omnihandler.go\<close>

lemma length_bytes16: "length (bytes16 a) = 16"
  using bytes16 [of a] by simp

lemma from_of_frame: "Array16 (take 16 (bytes16 sender @ data)) = sender"
  by (simp add: length_bytes16 bytes16_inverse)





text \<open>The receive loop forwards every chunk it reads, with the connection id in front.\<close>

lemma LNDCReceiver_loop_data:
  "LNDCReceiver_loop (map Inr datas @ l) closeErr id' (OmniChan, w) =
     LNDCReceiver_loop l closeErr id'
       (OmniChan @ map (\<lambda>data. bytes16 id' @ data) datas,
        foldl (\<lambda>w data. Printf ''incoming msg %x\<newline>'' [Hex (bytes16 id' @ data)] w) w datas)"
  by (induction datas arbitrary: OmniChan w) (simp_all add: Let_def)

text \<open>
  Claim C9, as amended. LNDCReceiver puts the 16-byte connection id in front of every
  chunk it reads and forwards (until a read fails). For a frame made of a 16-byte
  identifier, a message-type byte and a payload, OmniHandler takes the identifier as
  the sender, the byte as the message id, and hands the sender with exactly the
  payload to the handler of a pubkey response, multisig description, multisig ack,
  close request or close response. The pubkey-request handler is given the sender
  only, a text chat is printed (sender and payload) with no handler, and an unknown id
  is printed with no handler.
\<close>

theorem envelope_dispatch:
  "LNDCReceiver_loop (map Inr datas) closeErr id' (OmniChan, w) =
     (Blocked, OmniChan @ map (\<lambda>data. bytes16 id' @ data) datas,
      foldl (\<lambda>w data. Printf ''incoming msg %x\<newline>'' [Hex (bytes16 id' @ data)] w) w datas) \<and>
   fst (snd (LNDCReceiver_loop (map Inr datas @ Inl err # l) closeErr id' (OmniChan, w))) =
     OmniChan @ map (\<lambda>data. bytes16 id' @ data) datas \<and>
   OmniHandler_iteration ids hs (bytes16 id' @ msgid # payload) (from, w) =
     (id',
      if msgid = MSGID_TEXTCHAT ids then
        Printf ''text from %x: %s\<newline>'' [Hex (bytes16 id'), Str payload] w
      else if msgid = MSGID_PUBREQ ids then
        PubReqHandler hs id' (Printf ''got pubkey req from %x\<newline>'' [Hex (bytes16 id')] w)
      else if msgid = MSGID_PUBRESP ids then
        PubRespHandler hs id' payload
          (Printf ''got pubkey response from %x\<newline>'' [Hex (bytes16 id')] w)
      else if msgid = MSGID_MULTIDESC ids then
        QChanDescHandler hs id' payload
          (Printf ''Got multisig description from %x\<newline>'' [Hex (bytes16 id')] w)
      else if msgid = MSGID_MULTIACK ids then
        QChanAckHandler hs id' payload
          (Printf ''Got multisig ack from %x\<newline>'' [Hex (bytes16 id')] w)
      else if msgid = MSGID_CLOSEREQ ids then
        CloseReqHandler hs id' payload
          (Printf ''Got close request from %x\<newline>'' [Hex (bytes16 id')] w)
      else if msgid = MSGID_CLOSERESP ids then
        CloseRespHandler hs id' payload
          (Printf ''Got close response from %x\<newline>'' [Hex (bytes16 id')] w)
      else Printf ''Unknown message id byte %x'' [HexByte msgid] w)"
proof -
  have "LNDCReceiver_loop (map Inr datas @ []) closeErr id' (OmniChan, w) =
     (Blocked, OmniChan @ map (\<lambda>data. bytes16 id' @ data) datas,
      foldl (\<lambda>w data. Printf ''incoming msg %x\<newline>'' [Hex (bytes16 id' @ data)] w) w datas)"
    by (simp only: LNDCReceiver_loop_data LNDCReceiver_loop.simps)
  then have blocked: "LNDCReceiver_loop (map Inr datas) closeErr id' (OmniChan, w) =
     (Blocked, OmniChan @ map (\<lambda>data. bytes16 id' @ data) datas,
      foldl (\<lambda>w data. Printf ''incoming msg %x\<newline>'' [Hex (bytes16 id' @ data)] w) w datas)"
    by simp
  have closed:
    "fst (snd (LNDCReceiver_loop (map Inr datas @ Inl err # l) closeErr id' (OmniChan, w))) =
       OmniChan @ map (\<lambda>data. bytes16 id' @ data) datas"
    by (simp only: LNDCReceiver_loop_data LNDCReceiver_loop.simps fst_conv snd_conv)
  have len: "\<not> length (bytes16 id' @ msgid # payload) < 17"
    by (simp add: length_bytes16)
  have msg: "drop 16 (bytes16 id' @ msgid # payload) = msgid # payload"
    by (simp add: length_bytes16)
  have dispatch: "OmniHandler_iteration ids hs (bytes16 id' @ msgid # payload) (from, w) =
     (id',
      if msgid = MSGID_TEXTCHAT ids then
        Printf ''text from %x: %s\<newline>'' [Hex (bytes16 id'), Str payload] w
      else if msgid = MSGID_PUBREQ ids then
        PubReqHandler hs id' (Printf ''got pubkey req from %x\<newline>'' [Hex (bytes16 id')] w)
      else if msgid = MSGID_PUBRESP ids then
        PubRespHandler hs id' payload
          (Printf ''got pubkey response from %x\<newline>'' [Hex (bytes16 id')] w)
      else if msgid = MSGID_MULTIDESC ids then
        QChanDescHandler hs id' payload
          (Printf ''Got multisig description from %x\<newline>'' [Hex (bytes16 id')] w)
      else if msgid = MSGID_MULTIACK ids then
        QChanAckHandler hs id' payload
          (Printf ''Got multisig ack from %x\<newline>'' [Hex (bytes16 id')] w)
      else if msgid = MSGID_CLOSEREQ ids then
        CloseReqHandler hs id' payload
          (Printf ''Got close request from %x\<newline>'' [Hex (bytes16 id')] w)
      else if msgid = MSGID_CLOSERESP ids then
        CloseRespHandler hs id' payload
          (Printf ''Got close response from %x\<newline>'' [Hex (bytes16 id')] w)
      else Printf ''Unknown message id byte %x'' [HexByte msgid] w)"
    unfolding OmniHandler_iteration_def
    by (simp only: len msg from_of_frame Let_def split_conv if_False nth_Cons_0 drop_Suc_Cons
        drop_0 One_nat_def) simp
  from blocked closed dispatch show ?thesis
    by (intro conjI)
qed

text \<open>
  The claim as stated fails. With handlers that record their calls, a pubkey request
  with the payload 1, 2, 3 reaches its handler as the sender alone, and a text chat
  frame reaches no handler.
\<close>

theorem envelope_dispatch_counterexample:
  "app (OmniHandler sample_msgids recording_handlers
          [replicate 16 1 @ [0x30, 1, 2, 3]] empty_world) = [PubReq (Array16 (replicate 16 1))] \<and>
   app (OmniHandler sample_msgids recording_handlers
          [replicate 16 1 @ [0x70, 104, 105]] empty_world) = []"
  by (simp add: OmniHandler_def OmniHandler_iteration_def sample_msgids_def
      recording_handlers_def record_call_def empty_world_def Printf_def Let_def)

lemma BreakChannel_loop_no_match:
  "\<forall>m \<in> set multis. PeerIdx m \<noteq> currentPeerIdx \<Longrightarrow>
   BreakChannel_loop OutPointToBytes currentPeerIdx multis (opBytes, w) = (opBytes, w)"
  by (induction multis) simp_all

text \<open>
  Claim C10. When a peer is connected, GetPeerIdx and GetAllQchans succeed and no
  channel returned has the current peer's index, BreakChannel panics with an index out
  of range (the write to \<open>opBytes[0]\<close> of the nil slice) instead of returning an error.
\<close>

theorem BreakChannel_panics_without_channel:
  assumes "RemoteCon = Some con"
    and "GetPeerIdx (RemotePub con) = Inr currentPeerIdx"
    and "GetAllQchans = Inr multis"
    and "\<forall>m \<in> set multis. PeerIdx m \<noteq> currentPeerIdx"
  shows "BreakChannel RemoteCon GetPeerIdx GetAllQchans OutPointToBytes args w =
           (Panicked IndexOutOfRange, w)"
  using assms by (simp add: BreakChannel_def BreakChannel_loop_no_match)

theorem BreakChannel_panics_without_channel_witness:
  "PeerIdx sample_Qchan \<noteq> 1 \<and>
   BreakChannel sample_RemoteCon sample_GetPeerIdx (Inr [sample_Qchan]) sample_OutPointToBytes
     [] empty_world = (Panicked IndexOutOfRange, empty_world) \<and>
   BreakChannel sample_RemoteCon sample_GetPeerIdx (Inr []) sample_OutPointToBytes
     [] empty_world = (Panicked IndexOutOfRange, empty_world)"
  using BreakChannel_panics_without_channel [of sample_RemoteCon "\<lparr>RemotePub = 2 # replicate 32 9\<rparr>"
      sample_GetPeerIdx 1 "Inr [sample_Qchan]" "[sample_Qchan]" sample_OutPointToBytes "[]"
      empty_world]
    BreakChannel_panics_without_channel [of sample_RemoteCon "\<lparr>RemotePub = 2 # replicate 32 9\<rparr>"
      sample_GetPeerIdx 1 "Inr []" "[]" sample_OutPointToBytes "[]" empty_world]
  by (simp add: sample_RemoteCon_def sample_GetPeerIdx_def sample_Qchan_def)

text \<open>With a channel of the current peer, BreakChannel returns nil.\<close>

lemma BreakChannel_with_channel:
  "BreakChannel sample_RemoteCon sample_GetPeerIdx (Inr [sample_Qchan\<lparr>PeerIdx := 1\<rparr>])
     sample_OutPointToBytes [] empty_world =
   (Returned None,
    Printf ''peerIdx %d multIdx %d height %d %s amt: %d\<newline>''
      [Num 1, Num 0, Num 100, OutPointStr \<lparr>Hash = zero32, Index = 0\<rparr>, Num 1000] empty_world)"
  by (simp add: BreakChannel_def sample_RemoteCon_def sample_GetPeerIdx_def sample_Qchan_def
      sample_OutPointToBytes_def PutUint32_def)

end
